theory Spec2Isabelle
  imports Main "HOL-Library.Word"
begin

unbundle bit_operations_syntax

section \<open>Control loop of the dispenser counter (source/main.cpp)\<close>

text \<open>
  The program is one file: three interrupt handlers (\<open>counter_dec\<close>, \<open>counter_reset\<close>,
  \<open>low_battery\<close>), a start-up sequence and an endless loop in \<open>main\<close>. The embedding
  passes the program state explicitly. Reads of the hardware and of the clock are inputs of
  the step they occur in; every call into the radio library, the utility file and the sleep
  layer is recorded, in program order, in a list of actions. Logging calls have no effect on
  the state and are left out.
\<close>

type_synonym u8 = "8 word"
type_synonym u32 = "32 word"

text \<open>The value of a \<open>time(NULL)\<close> call, in seconds.\<close>

type_synonym time_t = int

subsection \<open>ApplicationConfig\<close>

text \<open>
  \<open>ApplicationConfig.h\<close> is included by main.cpp but is not among the sources. The object
  holds the three persisted values the program reads and writes through it. The counter and
  the interval are given the type main.cpp stores them in (\<open>uint32_t dispenses_left\<close>, the
  \<open>uint32_t\<close> argument of \<open>calculate_actual_sleep_time\<close>); \<open>full_dispenses\<close> is the
  configured full value that a reset restores.
\<close>

record ApplicationConfig =
  dispenses_left :: u32
  tx_interval_s :: u32
  battery_status :: bool
  full_dispenses :: u32

text \<open>Modelled from the spec: \<open>ApplicationConfig::get_dispenses_left\<close>, the getter of
  the remaining count (section 6, \<open>getRemainingCount\<close>).\<close>

definition get_dispenses_left :: "ApplicationConfig \<Rightarrow> u32" where
  "get_dispenses_left c = dispenses_left c"

text \<open>Modelled from the spec: \<open>ApplicationConfig::decrease_dispenses_left\<close>, which
  section 4.1 describes as a decrement of the remaining count, clamped at 0.\<close>

definition decrease_dispenses_left :: "ApplicationConfig \<Rightarrow> ApplicationConfig" where
  "decrease_dispenses_left c =
     c\<lparr>dispenses_left := (if dispenses_left c = 0 then 0 else dispenses_left c - 1)\<rparr>"

text \<open>Modelled from the spec: \<open>ApplicationConfig::reset_dispenses_left\<close>, which
  section 4.1 describes as resetting the remaining count to a configured full value.\<close>

definition reset_dispenses_left :: "ApplicationConfig \<Rightarrow> ApplicationConfig" where
  "reset_dispenses_left c = c\<lparr>dispenses_left := full_dispenses c\<rparr>"

text \<open>Modelled from the spec: \<open>ApplicationConfig::get_battery_status\<close>,
  \<open>alert_low_battery\<close> and \<open>alert_stable_battery\<close>: the stored battery-alert state
  of sections 3 and 4.3 (true when the battery was last recorded low), its setter to low
  and its setter to stable.\<close>

definition get_battery_status :: "ApplicationConfig \<Rightarrow> bool" where
  "get_battery_status c = battery_status c"

definition alert_low_battery :: "ApplicationConfig \<Rightarrow> ApplicationConfig" where
  "alert_low_battery c = c\<lparr>battery_status := True\<rparr>"

definition alert_stable_battery :: "ApplicationConfig \<Rightarrow> ApplicationConfig" where
  "alert_stable_battery c = c\<lparr>battery_status := False\<rparr>"

text \<open>Modelled from the spec: \<open>ApplicationConfig::get_tx_interval_s\<close> and
  \<open>set_tx_interval_s\<close>, getter and setter of the reporting period (section 6).\<close>

definition get_tx_interval_s :: "ApplicationConfig \<Rightarrow> u32" where
  "get_tx_interval_s c = tx_interval_s c"

definition set_tx_interval_s :: "u32 \<Rightarrow> ApplicationConfig \<Rightarrow> ApplicationConfig" where
  "set_tx_interval_s v c = c\<lparr>tx_interval_s := v\<rparr>"

subsection \<open>The radio object and the recorded calls\<close>

text \<open>
  Of the \<open>mDot\<close> object (an external library) the program reads one value,
  \<open>getNetworkJoinStatus()\<close>, and the properties below concern one setting, the argument
  last given to \<open>setDisableDutyCycle\<close>: \<open>True\<close> means the duty-cycle restriction is
  switched off.
  \<open>resetNetworkSession()\<close> leaves the device unjoined. What \<open>resetConfig()\<close> does to the
  setting is overwritten by line 96 before anything reads it.
\<close>

record mDot =
  network_join_status :: bool
  disable_duty_cycle :: bool

datatype action =
    ResetConfig
  | ResetNetworkSession
  | SetLogLevel
  | SetJoinMode
  | UpdateOtaConfig
  | SetDisableDutyCycle bool
  | SetAdr bool
  | SetTxDataRate
  | SetWakePin
  | SaveConfig
  | DisplayConfig
  | RestoreNetworkSession
  | JoinNetwork
  | SendData "u8 list"
  | SaveNetworkSession
  | Sleep u32 bool

text \<open>What a list of actions shows of the radio and of the sleep layer.\<close>

fun sent_payloads :: "action list \<Rightarrow> u8 list list" where
  "sent_payloads [] = []"
| "sent_payloads (SendData p # as) = p # sent_payloads as"
| "sent_payloads (_ # as) = sent_payloads as"

fun sleep_requests :: "action list \<Rightarrow> u32 list" where
  "sleep_requests [] = []"
| "sleep_requests (Sleep t _ # as) = t # sleep_requests as"
| "sleep_requests (_ # as) = sleep_requests as"

definition joins :: "action list \<Rightarrow> bool" where
  "joins as = (JoinNetwork \<in> set as)"

text \<open>The arguments of the \<open>setDisableDutyCycle\<close> calls, in order.\<close>

fun duty_cycle_calls :: "action list \<Rightarrow> bool list" where
  "duty_cycle_calls [] = []"
| "duty_cycle_calls (SetDisableDutyCycle b # as) = b # duty_cycle_calls as"
| "duty_cycle_calls (_ # as) = duty_cycle_calls as"

subsection \<open>Program state and interrupt handlers\<close>

text \<open>The file-level variables of main.cpp (lines 17 to 25) and the two objects they
  point to. \<open>deep_sleep\<close> is a constant of the file (line 15).\<close>

record state =
  config :: ApplicationConfig
  dot :: mDot
  counter_interrupt :: bool
  reset_interrupt :: bool
  low_battery_interrupt :: bool
  sleep_until :: u32

definition deep_sleep :: bool where
  "deep_sleep = False"

text \<open>Lines 27 to 40.\<close>

definition counter_dec :: "state \<Rightarrow> state" where
  "counter_dec s =
     s\<lparr>counter_interrupt := True, config := decrease_dispenses_left (config s)\<rparr>"

definition counter_reset :: "state \<Rightarrow> state" where
  "counter_reset s =
     s\<lparr>reset_interrupt := True, config := reset_dispenses_left (config s)\<rparr>"

definition low_battery :: "state \<Rightarrow> state" where
  "low_battery s =
     s\<lparr>low_battery_interrupt := True, config := alert_low_battery (config s)\<rparr>"

subsection \<open>Start-up (lines 59 to 128)\<close>

text \<open>
  \<open>standby_flag\<close> is \<open>dot->getStandbyFlag()\<close>, \<open>join_mode_is_ota\<close> tells whether
  \<open>dot->getJoinMode()\<close> returns \<open>mDot::OTA\<close>, and \<open>restored_join_status\<close> is the join
  status the device has after \<open>restoreNetworkSession()\<close>. The variables of lines 22 to 25
  start with their initialisers.
\<close>

record boot_input =
  standby_flag :: bool
  join_mode_is_ota :: bool
  restored_join_status :: bool

definition main_startup :: "boot_input \<Rightarrow> ApplicationConfig \<Rightarrow> mDot \<Rightarrow> state \<times> action list" where
  "main_startup b c d =
     (if \<not> standby_flag b then
        (let c1 = (if 60 < get_tx_interval_s c then set_tx_interval_s 60 c else c);
             d1 = d\<lparr>network_join_status := False, disable_duty_cycle := True\<rparr>
         in (\<lparr>config = c1, dot = d1, counter_interrupt = False, reset_interrupt = False,
               low_battery_interrupt = False, sleep_until = 0\<rparr>,
             [ResetConfig, ResetNetworkSession, SetLogLevel]
             @ (if \<not> join_mode_is_ota b then [SetJoinMode] else [])
             @ [UpdateOtaConfig, SetDisableDutyCycle True, SetAdr False, SetTxDataRate,
                SetWakePin, SaveConfig, DisplayConfig]))
      else
        (\<lparr>config = c, dot = d\<lparr>network_join_status := restored_join_status b\<rparr>,
           counter_interrupt = False, reset_interrupt = False,
           low_battery_interrupt = False, sleep_until = 0\<rparr>,
         [RestoreNetworkSession]))"

subsection \<open>One pass of the loop (lines 132 to 204)\<close>

text \<open>
  The inputs of one pass: \<open>dispense_read\<close> is \<open>dispense.read()\<close> at line 133;
  \<open>time_now\<close> is the value of the single \<open>time(NULL)\<close> call the pass makes (line 143 or
  line 198); \<open>join_ok\<close> tells whether the device is joined when \<open>join_network()\<close> returns;
  \<open>lowBat_read1\<close> and \<open>lowBat_read2\<close> are the two separate \<open>lowBat.read()\<close> calls of
  lines 171 and 177; \<open>elapsed\<close> and \<open>min_sleep\<close> are the two quantities
  \<open>calculate_actual_sleep_time\<close> uses besides its argument.
\<close>

record loop_input =
  dispense_read :: int
  time_now :: time_t
  join_ok :: bool
  lowBat_read1 :: int
  lowBat_read2 :: int
  elapsed :: u32
  min_sleep :: u32

text \<open>Modelled from the spec: \<open>calculate_actual_sleep_time\<close> of \<open>dot_util\<close>, which is
  not among the sources. Section 4.4: the target interval minus the time elapsed since the
  last wake, floored at a minimum positive value.\<close>

definition calculate_actual_sleep_time :: "u32 \<Rightarrow> u32 \<Rightarrow> u32 \<Rightarrow> u32" where
  "calculate_actual_sleep_time floor_s elapsed_s delay_s =
     (if elapsed_s < delay_s \<and> floor_s \<le> delay_s - elapsed_s then delay_s - elapsed_s
      else floor_s)"

text \<open>Lines 139 to 146: the branch taken when \<open>counter_interrupt\<close> is true. The
  subtraction mixes \<open>uint32_t\<close> and \<open>time_t\<close> and is stored in a \<open>uint32_t\<close>: whatever
  the width of \<open>time_t\<close>, the result is the difference modulo \<open>2 ^ 32\<close>.\<close>

definition dispense_wake :: "loop_input \<Rightarrow> state \<Rightarrow> state \<times> action list" where
  "dispense_wake i s =
     (let s1 = s\<lparr>config := decrease_dispenses_left (config s), counter_interrupt := False\<rparr>;
          sleep_time = (word_of_int (uint (sleep_until s1) - time_now i) :: u32)
      in (s1, [Sleep sleep_time deep_sleep]))"

text \<open>Lines 149 to 154.\<close>

definition drain_reset :: "state \<Rightarrow> state" where
  "drain_reset s = (if reset_interrupt s then s\<lparr>reset_interrupt := False\<rparr> else s)"

text \<open>Lines 159 to 162. \<open>join_network()\<close> belongs to \<open>dot_util\<close>, which is not
  among the sources, and returns nothing to main.cpp: whether the device is joined when
  it returns is the input \<open>join_ok\<close>, and the call that follows it is made either
  way.\<close>

definition ensure_joined :: "loop_input \<Rightarrow> state \<Rightarrow> state \<times> action list" where
  "ensure_joined i s =
     (if \<not> network_join_status (dot s) then
        (s\<lparr>dot := (dot s)\<lparr>network_join_status := join_ok i, disable_duty_cycle := False\<rparr>\<rparr>,
         [JoinNetwork, SetDisableDutyCycle False])
      else (s, []))"

text \<open>Lines 164 to 167: the two count bytes pushed to \<open>tx_data\<close>.\<close>

definition count_bytes :: "u32 \<Rightarrow> u8 list" where
  "count_bytes d = [ucast (drop_bit 8 d AND 0xff), ucast (d AND 0xff)]"

text \<open>Lines 171 to 175 and 177 to 181: each returns the configuration and the bytes it
  pushes.\<close>

definition report_stable :: "loop_input \<Rightarrow> ApplicationConfig \<Rightarrow> ApplicationConfig \<times> u8 list" where
  "report_stable i c =
     (if lowBat_read1 i = 1 \<and> get_battery_status c then (alert_stable_battery c, [0x00])
      else (c, []))"

definition report_low :: "loop_input \<Rightarrow> ApplicationConfig \<Rightarrow> ApplicationConfig \<times> u8 list" where
  "report_low i c =
     (if lowBat_read2 i = 0 then (alert_low_battery c, [0x01]) else (c, []))"

text \<open>Lines 149 to 203: the rest of the pass when \<open>counter_interrupt\<close> is false.\<close>

definition transmit_cycle :: "loop_input \<Rightarrow> state \<Rightarrow> state \<times> action list" where
  "transmit_cycle i s =
     (let s1 = drain_reset s;
          (s2, join_actions) = ensure_joined i s1;
          d = get_dispenses_left (config s2);
          (c3, stable_bytes) = report_stable i (config s2);
          (c4, low_bytes) = report_low i c3;
          tx_data = count_bytes d @ stable_bytes @ low_bytes;
          sleep_time = calculate_actual_sleep_time (min_sleep i) (elapsed i)
                         (get_tx_interval_s c4);
          s5 = s2\<lparr>config := c4,
                  sleep_until := word_of_int (time_now i + uint sleep_time)\<rparr>
      in (s5,
          join_actions @ [SetTxDataRate, SendData tx_data]
          @ (if deep_sleep then [SaveNetworkSession] else [])
          @ [Sleep sleep_time deep_sleep]))"

text \<open>Lines 133 to 147: the pin is read into \<open>counter_interrupt\<close>, then tested.\<close>

definition loop_pass :: "loop_input \<Rightarrow> state \<Rightarrow> state \<times> action list" where
  "loop_pass i s =
     (let s1 = s\<lparr>counter_interrupt := (dispense_read i \<noteq> 0)\<rparr>
      in if counter_interrupt s1 then dispense_wake i s1 else transmit_cycle i s1)"

text \<open>Both reads of the battery pin in one pass return the level \<open>v\<close>
  (0 is low, 1 is healthy).\<close>

definition battery_reads :: "loop_input \<Rightarrow> int \<Rightarrow> bool" where
  "battery_reads i v = (lowBat_read1 i = v \<and> lowBat_read2 i = v)"

subsection \<open>Executions\<close>

text \<open>An execution after start-up is a sequence of interrupt edges and loop passes;
  the handlers run between passes, while the device sleeps.\<close>

datatype event = DispenseEdge | ResetEdge | LowBatteryEdge | Pass loop_input

fun step :: "event \<Rightarrow> state \<times> action list \<Rightarrow> state \<times> action list" where
  "step DispenseEdge (s, as) = (counter_dec s, as)"
| "step ResetEdge (s, as) = (counter_reset s, as)"
| "step LowBatteryEdge (s, as) = (low_battery s, as)"
| "step (Pass i) (s, as) = (let (s', bs) = loop_pass i s in (s', as @ bs))"

definition run :: "event list \<Rightarrow> state \<times> action list \<Rightarrow> state \<times> action list" where
  "run evs sa = fold step evs sa"

subsection \<open>Concrete configurations and inputs\<close>

text \<open>A device with 1000 dispenses left and a 120 second interval, joined, asleep until
  second 100; a wake at second 40 with the dispense pin high; a wake at second 100 with
  the pin low and a healthy battery pin.\<close>

definition stocked_config :: ApplicationConfig where
  "stocked_config =
     \<lparr>dispenses_left = 1000, tx_interval_s = 120, battery_status = False,
      full_dispenses = 1000\<rparr>"

definition asleep_state :: state where
  "asleep_state =
     \<lparr>config = stocked_config,
      dot = \<lparr>network_join_status = True, disable_duty_cycle = False\<rparr>,
      counter_interrupt = False, reset_interrupt = False, low_battery_interrupt = False,
      sleep_until = 100\<rparr>"

definition wake_pin_high :: loop_input where
  "wake_pin_high =
     \<lparr>dispense_read = 1, time_now = 40, join_ok = True, lowBat_read1 = 1, lowBat_read2 = 1,
      elapsed = 0, min_sleep = 1\<rparr>"

definition wake_pin_low :: loop_input where
  "wake_pin_low =
     \<lparr>dispense_read = 0, time_now = 100, join_ok = True, lowBat_read1 = 1, lowBat_read2 = 1,
      elapsed = 0, min_sleep = 1\<rparr>"

text \<open>A wake at second 40 after a dispense pulse that is already over: the pin reads
  low.\<close>

definition wake_pulse_over :: loop_input where
  "wake_pulse_over =
     \<lparr>dispense_read = 0, time_now = 40, join_ok = True, lowBat_read1 = 1, lowBat_read2 = 1,
      elapsed = 0, min_sleep = 1\<rparr>"

text \<open>A wake with the battery pin low at both reads, and one where the pin falls
  between the two reads.\<close>

definition wake_battery_low :: loop_input where
  "wake_battery_low =
     \<lparr>dispense_read = 0, time_now = 100, join_ok = True, lowBat_read1 = 0, lowBat_read2 = 0,
      elapsed = 0, min_sleep = 1\<rparr>"

definition wake_battery_falling :: loop_input where
  "wake_battery_falling =
     \<lparr>dispense_read = 0, time_now = 100, join_ok = True, lowBat_read1 = 1, lowBat_read2 = 0,
      elapsed = 0, min_sleep = 1\<rparr>"

text \<open>A cold start, a wake from standby, and a radio that is not joined.\<close>

definition cold_boot :: boot_input where
  "cold_boot = \<lparr>standby_flag = False, join_mode_is_ota = False, restored_join_status = False\<rparr>"

definition warm_boot :: boot_input where
  "warm_boot = \<lparr>standby_flag = True, join_mode_is_ota = True, restored_join_status = True\<rparr>"

definition unjoined_dot :: mDot where
  "unjoined_dot = \<lparr>network_join_status = False, disable_duty_cycle = False\<rparr>"

lemmas example_defs =
  stocked_config_def asleep_state_def wake_pin_high_def wake_pin_low_def
  wake_battery_low_def cold_boot_def unjoined_dot_def

lemmas program_defs =
  loop_pass_def dispense_wake_def transmit_cycle_def drain_reset_def ensure_joined_def
  count_bytes_def report_stable_def report_low_def calculate_actual_sleep_time_def
  deep_sleep_def counter_dec_def counter_reset_def low_battery_def
  get_dispenses_left_def decrease_dispenses_left_def reset_dispenses_left_def
  get_battery_status_def alert_low_battery_def alert_stable_battery_def
  get_tx_interval_s_def set_tx_interval_s_def main_startup_def run_def

section \<open>Properties\<close>

subsection \<open>The two branches of a pass\<close>

lemma loop_pass_high:
  "dispense_read i \<noteq> 0 \<Longrightarrow> loop_pass i s = dispense_wake i (s\<lparr>counter_interrupt := True\<rparr>)"
  by (simp add: loop_pass_def)

lemma loop_pass_low:
  "dispense_read i = 0 \<Longrightarrow> loop_pass i s = transmit_cycle i (s\<lparr>counter_interrupt := False\<rparr>)"
  by (simp add: loop_pass_def)

lemma snd_dispense_wake:
  "snd (dispense_wake i s) = [Sleep (word_of_int (uint (sleep_until s) - time_now i)) deep_sleep]"
  by (simp add: dispense_wake_def Let_def)

lemma fst_dispense_wake:
  "fst (dispense_wake i s) =
     s\<lparr>config := decrease_dispenses_left (config s), counter_interrupt := False\<rparr>"
  by (simp add: dispense_wake_def Let_def)

lemma config_drain_reset: "config (drain_reset s) = config s"
  by (simp add: drain_reset_def)

lemma reset_interrupt_drain_reset: "reset_interrupt (drain_reset s) = False"
  by (simp add: drain_reset_def)

lemma config_ensure_joined: "config (fst (ensure_joined i s)) = config s"
  by (simp add: ensure_joined_def)

lemma config_transmit_cycle:
  "config (fst (transmit_cycle i s)) = fst (report_low i (fst (report_stable i (config s))))"
  by (simp add: transmit_cycle_def Let_def split_beta config_ensure_joined config_drain_reset)

lemma payload_transmit_cycle:
  "sent_payloads (snd (transmit_cycle i s)) =
     [count_bytes (get_dispenses_left (config s))
      @ snd (report_stable i (config s))
      @ snd (report_low i (fst (report_stable i (config s))))]"
  by (simp add: transmit_cycle_def Let_def split_beta config_ensure_joined config_drain_reset
      ensure_joined_def deep_sleep_def)

lemma reset_interrupt_transmit_cycle: "reset_interrupt (fst (transmit_cycle i s)) = False"
  by (simp add: transmit_cycle_def Let_def split_beta ensure_joined_def
      reset_interrupt_drain_reset)

lemma low_battery_interrupt_transmit_cycle:
  "low_battery_interrupt (fst (transmit_cycle i s)) = low_battery_interrupt s"
  by (simp add: transmit_cycle_def Let_def split_beta ensure_joined_def drain_reset_def)

lemma counter_interrupt_transmit_cycle:
  "counter_interrupt (fst (transmit_cycle i s)) = counter_interrupt s"
  by (simp add: transmit_cycle_def Let_def split_beta ensure_joined_def drain_reset_def)

lemma dot_transmit_cycle:
  "dot (fst (transmit_cycle i s)) = dot (fst (ensure_joined i s))"
  by (simp add: transmit_cycle_def Let_def split_beta ensure_joined_def drain_reset_def)

lemma actions_transmit_cycle:
  "snd (transmit_cycle i s) =
     snd (ensure_joined i s)
     @ [SetTxDataRate,
        SendData (count_bytes (get_dispenses_left (config s))
          @ snd (report_stable i (config s))
          @ snd (report_low i (fst (report_stable i (config s))))),
        Sleep (calculate_actual_sleep_time (min_sleep i) (elapsed i)
                 (get_tx_interval_s (config (fst (transmit_cycle i s))))) deep_sleep]"
  by (simp add: transmit_cycle_def Let_def split_beta ensure_joined_def drain_reset_def
      deep_sleep_def)

lemma dispenses_report_stable:
  "get_dispenses_left (fst (report_stable i c)) = get_dispenses_left c"
  by (simp add: report_stable_def get_dispenses_left_def alert_stable_battery_def)

lemma dispenses_report_low:
  "get_dispenses_left (fst (report_low i c)) = get_dispenses_left c"
  by (simp add: report_low_def get_dispenses_left_def alert_low_battery_def)

lemma interval_report_stable:
  "get_tx_interval_s (fst (report_stable i c)) = get_tx_interval_s c"
  by (simp add: report_stable_def get_tx_interval_s_def alert_stable_battery_def)

lemma interval_report_low:
  "get_tx_interval_s (fst (report_low i c)) = get_tx_interval_s c"
  by (simp add: report_low_def get_tx_interval_s_def alert_low_battery_def)

lemma interval_decrease:
  "get_tx_interval_s (decrease_dispenses_left c) = get_tx_interval_s c"
  by (simp add: get_tx_interval_s_def decrease_dispenses_left_def)

lemma interval_transmit_cycle:
  "get_tx_interval_s (config (fst (transmit_cycle i s))) = get_tx_interval_s (config s)"
  by (simp add: config_transmit_cycle interval_report_low interval_report_stable)

lemma sleep_requests_transmit_cycle:
  "sleep_requests (snd (transmit_cycle i s))
     = [calculate_actual_sleep_time (min_sleep i) (elapsed i) (get_tx_interval_s (config s))]"
  by (simp add: actions_transmit_cycle interval_transmit_cycle ensure_joined_def)

lemma sleep_until_transmit_cycle:
  "sleep_until (fst (transmit_cycle i s))
     = word_of_int (time_now i
         + uint (calculate_actual_sleep_time (min_sleep i) (elapsed i)
                   (get_tx_interval_s (config s))))"
  by (simp add: transmit_cycle_def Let_def split_beta ensure_joined_def drain_reset_def
      config_ensure_joined config_drain_reset interval_report_low interval_report_stable
      del: of_int_add)

lemma dispenses_transmit:
  "dispense_read i = 0 \<Longrightarrow>
     get_dispenses_left (config (fst (loop_pass i s))) = get_dispenses_left (config s)"
  by (simp add: loop_pass_low config_transmit_cycle dispenses_report_low
      dispenses_report_stable)

lemma reset_interrupt_loop_pass:
  "reset_interrupt (fst (loop_pass i s)) = (reset_interrupt s \<and> dispense_read i \<noteq> 0)"
  by (cases "dispense_read i = 0")
    (simp_all add: loop_pass_low loop_pass_high reset_interrupt_transmit_cycle
      fst_dispense_wake)

lemma counter_interrupt_loop_pass: "\<not> counter_interrupt (fst (loop_pass i s))"
  by (cases "dispense_read i = 0")
    (simp_all add: loop_pass_low loop_pass_high counter_interrupt_transmit_cycle
      fst_dispense_wake)

lemma low_battery_interrupt_loop_pass:
  "low_battery_interrupt (fst (loop_pass i s)) = low_battery_interrupt s"
  by (cases "dispense_read i = 0")
    (simp_all add: loop_pass_low loop_pass_high low_battery_interrupt_transmit_cycle
      fst_dispense_wake)

lemma funpow_3: "(f ^^ 3) x = f (f (f x))"
  by (simp add: numeral_3_eq_3)

subsection \<open>The counter\<close>

lemma uint_decrease:
  "uint (get_dispenses_left (decrease_dispenses_left c))
     = max 0 (uint (get_dispenses_left c) - 1)"
proof (cases "dispenses_left c = 0")
  case True
  then show ?thesis
    by (simp add: get_dispenses_left_def decrease_dispenses_left_def)
next
  case False
  then have "uint (dispenses_left c) \<noteq> 0"
    by (simp add: uint_0_iff)
  then have pos: "1 \<le> uint (dispenses_left c)"
    using uint_ge_0 [of "dispenses_left c"] by linarith
  have "uint (dispenses_left c - 1) = uint (dispenses_left c) - 1"
    using pos by (simp add: uint_sub_if')
  with False pos show ?thesis
    by (simp add: get_dispenses_left_def decrease_dispenses_left_def)
qed

lemma config_counter_dec: "config (counter_dec s) = decrease_dispenses_left (config s)"
  by (simp add: counter_dec_def)

lemma config_after_edges:
  "config ((counter_dec ^^ n) s) = (decrease_dispenses_left ^^ n) (config s)"
  by (induction n) (simp_all add: config_counter_dec)

lemma uint_after_edges:
  "uint (get_dispenses_left (config ((counter_dec ^^ n) s)))
     = max 0 (uint (get_dispenses_left (config s)) - int n)"
proof (induction n)
  case 0
  then show ?case by simp
next
  case (Suc n)
  have "uint (get_dispenses_left (config ((counter_dec ^^ Suc n) s)))
          = max 0 (uint (get_dispenses_left (config ((counter_dec ^^ n) s))) - 1)"
    by (simp add: config_counter_dec uint_decrease)
  also have "\<dots> = max 0 (max 0 (uint (get_dispenses_left (config s)) - int n) - 1)"
    by (simp only: Suc.IH)
  also have "\<dots> = max 0 (uint (get_dispenses_left (config s)) - int (Suc n))"
    by simp
  finally show ?case .
qed

subsection \<open>The payload bytes\<close>

lemma nat_and_255: "(n :: nat) AND 255 = n mod 256"
proof -
  have "n AND mask 8 = n mod 2 ^ 8"
    by (simp add: take_bit_eq_mod flip: take_bit_eq_mask)
  then show ?thesis by (simp add: mask_eq_exp_minus_1)
qed

lemma lo_byte: "unat (ucast (d AND 0xff :: u32) :: u8) = unat d mod 256"
  by (simp add: unsigned_ucast_eq unsigned_and_eq nat_and_255 take_bit_eq_mod)

lemma count_bytes_big_endian:
  "map unat (count_bytes d) = [unat d div 256 mod 256, unat d mod 256]"
  by (simp add: count_bytes_def lo_byte drop_bit_eq_div unat_div)

lemma length_count_bytes: "length (count_bytes d) = 2"
  by (simp add: count_bytes_def)

lemma battery_transmit_low:
  assumes "dispense_read i = 0" and "battery_reads i 0"
  shows "sent_payloads (snd (loop_pass i s))
           = [count_bytes (get_dispenses_left (config s)) @ [0x01]]"
    and "get_battery_status (config (fst (loop_pass i s)))"
  using assms
  by (simp_all add: loop_pass_low payload_transmit_cycle config_transmit_cycle
      battery_reads_def report_stable_def report_low_def get_battery_status_def
      alert_low_battery_def)

lemma battery_transmit_healthy:
  assumes "dispense_read i = 0" and "battery_reads i 1"
  shows "sent_payloads (snd (loop_pass i s))
           = [count_bytes (get_dispenses_left (config s))
              @ (if get_battery_status (config s) then [0x00] else [])]"
    and "\<not> get_battery_status (config (fst (loop_pass i s)))"
  using assms
  by (simp_all add: loop_pass_low payload_transmit_cycle config_transmit_cycle
      battery_reads_def report_stable_def report_low_def get_battery_status_def
      alert_stable_battery_def)

subsection \<open>The radio calls of a pass\<close>

lemma duty_cycle_calls_transmit_cycle:
  "duty_cycle_calls (snd (transmit_cycle i s))
     = (if network_join_status (dot s) then [] else [False])"
  by (simp add: actions_transmit_cycle ensure_joined_def)

lemma joins_transmit_cycle:
  "joins (snd (transmit_cycle i s)) = (\<not> network_join_status (dot s))"
  by (simp add: actions_transmit_cycle ensure_joined_def joins_def)

lemma first_calls_transmit_cycle:
  "\<not> network_join_status (dot s) \<Longrightarrow>
     take 2 (snd (transmit_cycle i s)) = [JoinNetwork, SetDisableDutyCycle False]"
  by (simp add: actions_transmit_cycle ensure_joined_def)

lemma dot_loop_pass_unjoined:
  assumes "dispense_read i = 0" and "\<not> network_join_status (dot s)"
  shows "network_join_status (dot (fst (loop_pass i s))) = join_ok i"
    and "\<not> disable_duty_cycle (dot (fst (loop_pass i s)))"
  using assms
  by (simp_all add: loop_pass_low dot_transmit_cycle ensure_joined_def)

lemma dot_loop_pass_unchanged:
  assumes "dispense_read i \<noteq> 0 \<or> network_join_status (dot s)"
  shows "dot (fst (loop_pass i s)) = dot s"
proof (cases "dispense_read i = 0")
  case True
  with assms show ?thesis
    by (simp add: loop_pass_low dot_transmit_cycle ensure_joined_def)
next
  case False
  then show ?thesis by (simp add: loop_pass_high fst_dispense_wake)
qed

subsection \<open>The low-battery latch along an execution\<close>

lemma low_battery_interrupt_step:
  "low_battery_interrupt (fst sa) \<Longrightarrow> low_battery_interrupt (fst (step e sa))"
  by (cases sa; cases e)
    (simp_all add: counter_dec_def counter_reset_def low_battery_def split_beta
      low_battery_interrupt_loop_pass)

lemma low_battery_interrupt_run:
  "low_battery_interrupt (fst sa) \<Longrightarrow> low_battery_interrupt (fst (run evs sa))"
  unfolding run_def
proof (induction evs arbitrary: sa)
  case Nil
  then show ?case by simp
next
  case (Cons e evs)
  then show ?case by (simp add: low_battery_interrupt_step)
qed

text \<open>While the deadline lies ahead, the 32-bit difference is the true difference.\<close>

lemma uint_remainder:
  fixes d :: u32
  assumes "0 \<le> t" and "t \<le> uint d"
  shows "uint (word_of_int (uint d - t) :: u32) = uint d - t"
proof -
  have "uint d < 2 ^ 32" using uint_bounded [of d] by simp
  with assms have "0 \<le> uint d - t" and "uint d - t < 2 ^ 32" by simp_all
  then have "take_bit 32 (uint d - t) = uint d - t"
    by (rule take_bit_int_eq_self)
  moreover have "uint (word_of_int (uint d - t) :: u32) = take_bit 32 (uint d - t)"
    by (simp only: uint_word_of_int_eq) simp
  ultimately show ?thesis by (simp only:)
qed

subsection \<open>The dispense wake\<close>

text \<open>
  Claim C2 fails as stated when the dispense signal was latched by its handler and the
  pulse is over at the drain. One dispense edge during the sleep leaves the dispense latch
  set, no reset and no low-battery latch, and the deadline (100) ahead of the clock (40);
  the pin reads low at line 133, which overwrites the latch, and the pass takes the
  transmit path: it sends \<open>[0x03, 0xE7]\<close>, requests a sleep of the full 120 seconds
  and moves the deadline to 160. With the radio unjoined it also joins.
\<close>

theorem dispense_latch_alone_transmits:
  "counter_interrupt (counter_dec asleep_state)
   \<and> \<not> reset_interrupt (counter_dec asleep_state)
   \<and> \<not> low_battery_interrupt (counter_dec asleep_state)
   \<and> time_now wake_pulse_over < uint (sleep_until (counter_dec asleep_state))
   \<and> snd (loop_pass wake_pulse_over (counter_dec asleep_state))
       = [SetTxDataRate, SendData [0x03, 0xE7], Sleep 120 False]
   \<and> sleep_until (fst (loop_pass wake_pulse_over (counter_dec asleep_state))) = 160
   \<and> joins (snd (loop_pass wake_pulse_over
         (counter_dec (asleep_state\<lparr>dot := unjoined_dot\<rparr>))))"
  by (simp add: wake_pulse_over_def joins_def example_defs program_defs)

text \<open>
  Claim C2, as the program has it. What decides the pass is the level of the dispense pin
  at line 133, not the latch the handler set: the pass is the same whatever the latch
  held. A wake at which the pin reads high while the deadline \<open>sleep_until\<close> still lies
  ahead makes no join and no transmit: the single call of the pass is the sleep request,
  whose duration is \<open>sleep_until - now\<close>, the remainder of the running interval, and
  the deadline is left as it was. A wake at which the pin reads low takes the transmit
  path, also when the dispense latch is the only latch set: it joins exactly when the
  device is unjoined, sends one payload, requests the duration that
  \<open>calculate_actual_sleep_time\<close> returns for the interval, and sets the deadline to
  the clock plus that duration.
\<close>

theorem dispense_wake_by_pin_level:
  "loop_pass i (s\<lparr>counter_interrupt := b\<rparr>) = loop_pass i s
   \<and> (dispense_read i \<noteq> 0 \<and> 0 \<le> time_now i \<and> time_now i < uint (sleep_until s) \<longrightarrow>
        \<not> joins (snd (loop_pass i s))
        \<and> sent_payloads (snd (loop_pass i s)) = []
        \<and> sleep_requests (snd (loop_pass i s))
            = [word_of_int (uint (sleep_until s) - time_now i)]
        \<and> uint (word_of_int (uint (sleep_until s) - time_now i) :: u32)
            = uint (sleep_until s) - time_now i
        \<and> sleep_until (fst (loop_pass i s)) = sleep_until s)
   \<and> (dispense_read i = 0 \<longrightarrow>
        joins (snd (loop_pass i s)) = (\<not> network_join_status (dot s))
        \<and> length (sent_payloads (snd (loop_pass i s))) = 1
        \<and> sleep_requests (snd (loop_pass i s))
            = [calculate_actual_sleep_time (min_sleep i) (elapsed i)
                 (get_tx_interval_s (config s))]
        \<and> sleep_until (fst (loop_pass i s))
            = word_of_int (time_now i
                + uint (calculate_actual_sleep_time (min_sleep i) (elapsed i)
                          (get_tx_interval_s (config s)))))"
proof (intro conjI impI)
  show "loop_pass i (s\<lparr>counter_interrupt := b\<rparr>) = loop_pass i s"
    by (simp add: loop_pass_def)
next
  assume h: "dispense_read i \<noteq> 0 \<and> 0 \<le> time_now i \<and> time_now i < uint (sleep_until s)"
  then show "uint (word_of_int (uint (sleep_until s) - time_now i) :: u32)
            = uint (sleep_until s) - time_now i"
    by (intro uint_remainder) simp_all
  from h show "\<not> joins (snd (loop_pass i s))"
    by (simp add: loop_pass_high snd_dispense_wake joins_def)
  from h show "sent_payloads (snd (loop_pass i s)) = []"
    by (simp add: loop_pass_high snd_dispense_wake)
  from h show "sleep_requests (snd (loop_pass i s))
            = [word_of_int (uint (sleep_until s) - time_now i)]"
    by (simp add: loop_pass_high snd_dispense_wake del: of_int_diff)
  from h show "sleep_until (fst (loop_pass i s)) = sleep_until s"
    by (simp add: loop_pass_high fst_dispense_wake)
next
  assume l: "dispense_read i = 0"
  then show "joins (snd (loop_pass i s)) = (\<not> network_join_status (dot s))"
    by (simp add: loop_pass_low joins_transmit_cycle)
  from l show "length (sent_payloads (snd (loop_pass i s))) = 1"
    by (simp add: loop_pass_low payload_transmit_cycle)
  from l show "sleep_requests (snd (loop_pass i s))
            = [calculate_actual_sleep_time (min_sleep i) (elapsed i)
                 (get_tx_interval_s (config s))]"
    by (simp add: loop_pass_low sleep_requests_transmit_cycle)
  from l show "sleep_until (fst (loop_pass i s))
            = word_of_int (time_now i
                + uint (calculate_actual_sleep_time (min_sleep i) (elapsed i)
                          (get_tx_interval_s (config s))))"
    by (simp add: loop_pass_low sleep_until_transmit_cycle del: of_int_add)
qed

theorem dispense_wake_by_pin_level_witness:
  "dispense_read wake_pin_high \<noteq> 0
   \<and> 0 \<le> time_now wake_pin_high
   \<and> time_now wake_pin_high < uint (sleep_until asleep_state)
   \<and> \<not> joins (snd (loop_pass wake_pin_high asleep_state))
   \<and> sent_payloads (snd (loop_pass wake_pin_high asleep_state)) = []
   \<and> sleep_requests (snd (loop_pass wake_pin_high asleep_state)) = [60]
   \<and> sleep_until (fst (loop_pass wake_pin_high asleep_state)) = 100
   \<and> dispense_read wake_pulse_over = 0
   \<and> counter_interrupt (counter_dec asleep_state)
   \<and> \<not> joins (snd (loop_pass wake_pulse_over (counter_dec asleep_state)))
   \<and> sent_payloads (snd (loop_pass wake_pulse_over (counter_dec asleep_state)))
       = [[0x03, 0xE7]]
   \<and> sleep_requests (snd (loop_pass wake_pulse_over (counter_dec asleep_state))) = [120]
   \<and> sleep_until (fst (loop_pass wake_pulse_over (counter_dec asleep_state))) = 160"
  using dispense_wake_by_pin_level [where i = wake_pin_high and s = asleep_state]
    dispense_wake_by_pin_level
      [where i = wake_pulse_over and s = "counter_dec asleep_state"]
  by (simp add: wake_pulse_over_def joins_def example_defs program_defs)

subsection \<open>The latch and the pin\<close>

text \<open>
  Claim C10. A pass classifies the wake by the level of the dispense pin alone: the value
  the handler left in \<open>counter_interrupt\<close> is overwritten by the pin read, so the pass
  is the same whatever the latch held. After a dispense edge whose pulse is over (the pin
  reads 0) the pass does not take the dispense branch: it transmits one payload, and the
  count is the one the handler left. With the pin still high the pass takes the dispense
  branch (its only call is the sleep request) and decrements the count once more, on top
  of the handler's decrement.
\<close>

theorem dispense_class_is_pin_level:
  "loop_pass i (s\<lparr>counter_interrupt := b\<rparr>) = loop_pass i s
   \<and> (dispense_read i = 0 \<longrightarrow>
        length (sent_payloads (snd (loop_pass i (counter_dec s)))) = 1
        \<and> get_dispenses_left (config (fst (loop_pass i (counter_dec s))))
            = get_dispenses_left (decrease_dispenses_left (config s)))
   \<and> (dispense_read i \<noteq> 0 \<longrightarrow>
        snd (loop_pass i (counter_dec s))
          = [Sleep (word_of_int (uint (sleep_until s) - time_now i)) deep_sleep]
        \<and> config (fst (loop_pass i (counter_dec s)))
            = decrease_dispenses_left (decrease_dispenses_left (config s)))"
proof (intro conjI impI)
  show "loop_pass i (s\<lparr>counter_interrupt := b\<rparr>) = loop_pass i s"
    by (simp add: loop_pass_def)
next
  assume "dispense_read i = 0"
  then show "length (sent_payloads (snd (loop_pass i (counter_dec s)))) = 1"
    by (simp add: loop_pass_low payload_transmit_cycle)
next
  assume "dispense_read i = 0"
  then show "get_dispenses_left (config (fst (loop_pass i (counter_dec s))))
            = get_dispenses_left (decrease_dispenses_left (config s))"
    by (simp add: loop_pass_low config_transmit_cycle dispenses_report_low
        dispenses_report_stable counter_dec_def)
next
  assume "dispense_read i \<noteq> 0"
  then show "snd (loop_pass i (counter_dec s))
          = [Sleep (word_of_int (uint (sleep_until s) - time_now i)) deep_sleep]"
    by (simp add: loop_pass_high snd_dispense_wake counter_dec_def del: of_int_diff)
next
  assume "dispense_read i \<noteq> 0"
  then show "config (fst (loop_pass i (counter_dec s)))
            = decrease_dispenses_left (decrease_dispenses_left (config s))"
    by (simp add: loop_pass_high fst_dispense_wake counter_dec_def)
qed

theorem dispense_class_is_pin_level_witness:
  "dispense_read wake_pin_low = 0
   \<and> sent_payloads (snd (loop_pass wake_pin_low (counter_dec asleep_state))) = [[0x03, 0xE7]]
   \<and> get_dispenses_left (config (fst (loop_pass wake_pin_low (counter_dec asleep_state)))) = 999
   \<and> dispense_read wake_pin_high \<noteq> 0
   \<and> snd (loop_pass wake_pin_high (counter_dec asleep_state)) = [Sleep 60 False]
   \<and> get_dispenses_left (config (fst (loop_pass wake_pin_high (counter_dec asleep_state)))) = 998"
  using dispense_class_is_pin_level [where i = wake_pin_low and s = asleep_state]
    dispense_class_is_pin_level [where i = wake_pin_high and s = asleep_state]
  by (simp add: example_defs program_defs)

subsection \<open>The interval ceiling\<close>

text \<open>
  Claim C9. The ceiling of 60 seconds on the reporting interval is applied at a cold start
  only: when \<open>getStandbyFlag()\<close> is false, a stored interval above 60 becomes 60 and any
  other is kept; when the flag is true the configuration is taken as stored and the only
  call made before the loop is \<open>restoreNetworkSession()\<close>. No pass of the loop changes
  the interval.
\<close>

theorem interval_ceiling_at_cold_start:
  "(\<not> standby_flag b \<longrightarrow>
      get_tx_interval_s (config (fst (main_startup b c d)))
        = (if 60 < get_tx_interval_s c then 60 else get_tx_interval_s c))
   \<and> (standby_flag b \<longrightarrow>
      config (fst (main_startup b c d)) = c
      \<and> snd (main_startup b c d) = [RestoreNetworkSession])
   \<and> get_tx_interval_s (config (fst (loop_pass i s))) = get_tx_interval_s (config s)"
proof (intro conjI impI)
  assume "\<not> standby_flag b"
  then show "get_tx_interval_s (config (fst (main_startup b c d)))
        = (if 60 < get_tx_interval_s c then 60 else get_tx_interval_s c)"
    by (simp add: main_startup_def Let_def get_tx_interval_s_def set_tx_interval_s_def)
next
  assume "standby_flag b"
  then show "config (fst (main_startup b c d)) = c"
    by (simp add: main_startup_def)
next
  assume "standby_flag b"
  then show "snd (main_startup b c d) = [RestoreNetworkSession]"
    by (simp add: main_startup_def)
next
  show "get_tx_interval_s (config (fst (loop_pass i s))) = get_tx_interval_s (config s)"
    by (cases "dispense_read i = 0")
      (simp_all add: loop_pass_low loop_pass_high config_transmit_cycle fst_dispense_wake
        interval_report_low interval_report_stable interval_decrease)
qed

theorem interval_ceiling_at_cold_start_witness:
  "\<not> standby_flag cold_boot
   \<and> get_tx_interval_s (config (fst (main_startup cold_boot stocked_config unjoined_dot))) = 60
   \<and> standby_flag warm_boot
   \<and> get_tx_interval_s (config (fst (main_startup warm_boot stocked_config unjoined_dot))) = 120
   \<and> snd (main_startup warm_boot stocked_config unjoined_dot) = [RestoreNetworkSession]"
  using interval_ceiling_at_cold_start [where b = cold_boot and c = stocked_config and d = unjoined_dot]
    interval_ceiling_at_cold_start [where b = warm_boot and c = stocked_config and d = unjoined_dot]
  by (simp add: example_defs warm_boot_def get_tx_interval_s_def)

subsection \<open>Counting dispense edges\<close>

text \<open>
  Claim C1 fails as stated at 1000 dispenses and three edges when the dispense pin is
  still high at the drain: the handler has counted the three edges, the pass decrements
  once more (line 139), and the count after the drain is 996, not \<open>max 0 (1000 - 3)\<close>.
\<close>

theorem extra_decrement_at_drain:
  "uint (get_dispenses_left (config asleep_state)) = 1000
   \<and> uint (get_dispenses_left
        (config (fst (loop_pass wake_pin_high ((counter_dec ^^ 3) asleep_state))))) = 996
   \<and> uint (get_dispenses_left
        (config (fst (loop_pass wake_pin_high ((counter_dec ^^ 3) asleep_state)))))
       \<noteq> max 0 (uint (get_dispenses_left (config asleep_state)) - 3)"
  by (simp add: funpow_3 example_defs program_defs)

text \<open>
  Claim C1, as the program has it. After \<open>n\<close> dispense edges the handler has called
  \<open>decrease_dispenses_left\<close> \<open>n\<close> times, and the count is \<open>max 0 (initial - n)\<close>. If
  the dispense pin reads low at the drain, the pass leaves the count at that value and the
  first two bytes of the payload it sends encode it. If the pin reads high, the pass calls
  \<open>decrease_dispenses_left\<close> once more, the count is \<open>max 0 (initial - n - 1)\<close>, and
  nothing is sent.
\<close>

theorem count_after_edges_and_drain:
  "config ((counter_dec ^^ n) s) = (decrease_dispenses_left ^^ n) (config s)
   \<and> uint (get_dispenses_left (config ((counter_dec ^^ n) s)))
       = max 0 (uint (get_dispenses_left (config s)) - int n)
   \<and> (dispense_read i = 0 \<longrightarrow>
        uint (get_dispenses_left (config (fst (loop_pass i ((counter_dec ^^ n) s)))))
          = max 0 (uint (get_dispenses_left (config s)) - int n)
        \<and> map (take 2) (sent_payloads (snd (loop_pass i ((counter_dec ^^ n) s))))
          = [count_bytes (get_dispenses_left (config ((counter_dec ^^ n) s)))])
   \<and> (dispense_read i \<noteq> 0 \<longrightarrow>
        config (fst (loop_pass i ((counter_dec ^^ n) s)))
          = decrease_dispenses_left ((decrease_dispenses_left ^^ n) (config s))
        \<and> uint (get_dispenses_left (config (fst (loop_pass i ((counter_dec ^^ n) s)))))
          = max 0 (uint (get_dispenses_left (config s)) - int n - 1)
        \<and> sent_payloads (snd (loop_pass i ((counter_dec ^^ n) s))) = [])"
proof (intro conjI impI)
  show "config ((counter_dec ^^ n) s) = (decrease_dispenses_left ^^ n) (config s)"
    by (rule config_after_edges)
  show "uint (get_dispenses_left (config ((counter_dec ^^ n) s)))
     = max 0 (uint (get_dispenses_left (config s)) - int n)"
    by (rule uint_after_edges)
next
  assume "dispense_read i = 0"
  then show "uint (get_dispenses_left (config (fst (loop_pass i ((counter_dec ^^ n) s)))))
          = max 0 (uint (get_dispenses_left (config s)) - int n)"
    by (simp add: dispenses_transmit uint_after_edges)
next
  assume "dispense_read i = 0"
  then show "map (take 2) (sent_payloads (snd (loop_pass i ((counter_dec ^^ n) s))))
          = [count_bytes (get_dispenses_left (config ((counter_dec ^^ n) s)))]"
    by (simp add: loop_pass_low payload_transmit_cycle count_bytes_def)
next
  assume "dispense_read i \<noteq> 0"
  then show "config (fst (loop_pass i ((counter_dec ^^ n) s)))
          = decrease_dispenses_left ((decrease_dispenses_left ^^ n) (config s))"
    by (simp add: loop_pass_high fst_dispense_wake config_after_edges)
next
  assume "dispense_read i \<noteq> 0"
  then have "uint (get_dispenses_left (config (fst (loop_pass i ((counter_dec ^^ n) s)))))
          = max 0 (max 0 (uint (get_dispenses_left (config s)) - int n) - 1)"
    by (simp add: loop_pass_high fst_dispense_wake uint_decrease uint_after_edges)
  then show "uint (get_dispenses_left (config (fst (loop_pass i ((counter_dec ^^ n) s)))))
          = max 0 (uint (get_dispenses_left (config s)) - int n - 1)"
    by simp
next
  assume "dispense_read i \<noteq> 0"
  then show "sent_payloads (snd (loop_pass i ((counter_dec ^^ n) s))) = []"
    by (simp add: loop_pass_high snd_dispense_wake)
qed

theorem count_after_edges_and_drain_witness:
  "dispense_read wake_pin_low = 0
   \<and> uint (get_dispenses_left
        (config (fst (loop_pass wake_pin_low ((counter_dec ^^ 3) asleep_state))))) = 997
   \<and> map (take 2) (sent_payloads (snd (loop_pass wake_pin_low ((counter_dec ^^ 3) asleep_state))))
       = [[0x03, 0xE5]]
   \<and> dispense_read wake_pin_high \<noteq> 0
   \<and> uint (get_dispenses_left
        (config (fst (loop_pass wake_pin_high ((counter_dec ^^ 3) asleep_state))))) = 996
   \<and> sent_payloads (snd (loop_pass wake_pin_high ((counter_dec ^^ 3) asleep_state))) = []"
  using count_after_edges_and_drain [where i = wake_pin_low and s = asleep_state and n = 3]
    count_after_edges_and_drain [where i = wake_pin_high and s = asleep_state and n = 3]
  by (simp add: funpow_3 example_defs program_defs)

subsection \<open>Reset and dispense pending together\<close>

text \<open>
  Claim C3 fails as stated when a dispense edge and then a reset edge arrive during the
  sleep and the dispense pin is high at the drain: both latches are set, the pass tests
  the dispense signal first and goes straight back to sleep (its only call is the sleep
  request), and it ends with 999 dispenses left where the full value is 1000.
\<close>

theorem reset_pending_short_circuited:
  "reset_interrupt (fst (run [DispenseEdge, ResetEdge] (asleep_state, [])))
   \<and> counter_interrupt (fst (run [DispenseEdge, ResetEdge] (asleep_state, [])))
   \<and> snd (run [DispenseEdge, ResetEdge, Pass wake_pin_high] (asleep_state, []))
       = [Sleep 60 False]
   \<and> get_dispenses_left
        (config (fst (run [DispenseEdge, ResetEdge, Pass wake_pin_high] (asleep_state, []))))
       = 999
   \<and> full_dispenses
        (config (fst (run [DispenseEdge, ResetEdge, Pass wake_pin_high] (asleep_state, []))))
       = 1000"
  by (simp add: example_defs program_defs)

text \<open>
  Claim C3, as the program has it. The reset itself is done by the handler when the edge
  occurs: it sets the count to the full value and sets the reset latch. The pass tests the
  dispense signal before the reset latch. With the dispense pin high it takes the dispense
  branch whatever the reset latch holds: one more decrement, nothing sent, and the reset
  latch is left as it was. With the pin low it clears the reset latch, leaves the count as
  the handlers left it, and sends one payload.
\<close>

theorem reset_latch_waits_for_pin_low:
  "get_dispenses_left (config (counter_reset s)) = full_dispenses (config s)
   \<and> reset_interrupt (counter_reset s)
   \<and> (dispense_read i \<noteq> 0 \<longrightarrow>
        reset_interrupt (fst (loop_pass i s)) = reset_interrupt s
        \<and> config (fst (loop_pass i s)) = decrease_dispenses_left (config s)
        \<and> sent_payloads (snd (loop_pass i s)) = [])
   \<and> (dispense_read i = 0 \<longrightarrow>
        \<not> reset_interrupt (fst (loop_pass i s))
        \<and> get_dispenses_left (config (fst (loop_pass i s))) = get_dispenses_left (config s)
        \<and> length (sent_payloads (snd (loop_pass i s))) = 1)"
proof (intro conjI impI)
  show "get_dispenses_left (config (counter_reset s)) = full_dispenses (config s)"
    by (simp add: counter_reset_def reset_dispenses_left_def get_dispenses_left_def)
  show "reset_interrupt (counter_reset s)"
    by (simp add: counter_reset_def)
next
  assume "dispense_read i \<noteq> 0"
  then show "reset_interrupt (fst (loop_pass i s)) = reset_interrupt s"
    by (simp add: reset_interrupt_loop_pass)
next
  assume "dispense_read i \<noteq> 0"
  then show "config (fst (loop_pass i s)) = decrease_dispenses_left (config s)"
    by (simp add: loop_pass_high fst_dispense_wake)
next
  assume "dispense_read i \<noteq> 0"
  then show "sent_payloads (snd (loop_pass i s)) = []"
    by (simp add: loop_pass_high snd_dispense_wake)
next
  assume "dispense_read i = 0"
  then show "\<not> reset_interrupt (fst (loop_pass i s))"
    by (simp add: reset_interrupt_loop_pass)
next
  assume "dispense_read i = 0"
  then show "get_dispenses_left (config (fst (loop_pass i s))) = get_dispenses_left (config s)"
    by (rule dispenses_transmit)
next
  assume "dispense_read i = 0"
  then show "length (sent_payloads (snd (loop_pass i s))) = 1"
    by (simp add: loop_pass_low payload_transmit_cycle)
qed

theorem reset_latch_waits_for_pin_low_witness:
  "dispense_read wake_pin_high \<noteq> 0
   \<and> reset_interrupt (fst (loop_pass wake_pin_high (counter_reset (counter_dec asleep_state))))
   \<and> get_dispenses_left
        (config (fst (loop_pass wake_pin_high (counter_reset (counter_dec asleep_state))))) = 999
   \<and> dispense_read wake_pin_low = 0
   \<and> \<not> reset_interrupt (fst (loop_pass wake_pin_low (counter_reset (counter_dec asleep_state))))
   \<and> get_dispenses_left
        (config (fst (loop_pass wake_pin_low (counter_reset (counter_dec asleep_state))))) = 1000
   \<and> sent_payloads (snd (loop_pass wake_pin_low (counter_reset (counter_dec asleep_state))))
       = [[0x03, 0xE8]]"
  using reset_latch_waits_for_pin_low
      [where i = wake_pin_high and s = "counter_reset (counter_dec asleep_state)"]
    reset_latch_waits_for_pin_low
      [where i = wake_pin_low and s = "counter_reset (counter_dec asleep_state)"]
  by (simp add: example_defs program_defs)

subsection \<open>The sleep duration of the dispense wake\<close>

text \<open>
  Claim C4 is not met by the dispense branch (line 143), which subtracts without a test.
  One second after the deadline (deadline 100, clock 101) the duration requested is
  \<open>2 ^ 32 - 1\<close> seconds; at the deadline itself it is 0; and on the first pass after a
  cold start, where \<open>sleep_until\<close> still holds its initial 0, a clock value of
  1700000000 gives \<open>2 ^ 32 - 1700000000\<close>.
\<close>

theorem dispense_wake_sleep_wraps:
  "sleep_requests (snd (loop_pass (wake_pin_high\<lparr>time_now := 101\<rparr>) asleep_state))
     = [4294967295]
   \<and> sleep_requests (snd (loop_pass (wake_pin_high\<lparr>time_now := 100\<rparr>) asleep_state))
     = [0]
   \<and> sleep_requests (snd (loop_pass (wake_pin_high\<lparr>time_now := 1700000000\<rparr>)
        (fst (main_startup cold_boot stocked_config unjoined_dot))))
     = [2594967296]"
  by (simp add: example_defs program_defs)

subsection \<open>The duty-cycle setting\<close>

text \<open>
  Claim C5 fails as stated on every cold start: line 96 calls
  \<open>setDisableDutyCycle(true)\<close> after the network session has been reset, so the
  restriction is switched off while the device is unjoined, and the first transmit pass
  switches it on again with \<open>setDisableDutyCycle(false)\<close> right after
  \<open>join_network()\<close>.
\<close>

theorem duty_cycle_off_while_unjoined:
  "\<not> network_join_status (dot (fst (main_startup cold_boot stocked_config unjoined_dot)))
   \<and> disable_duty_cycle (dot (fst (main_startup cold_boot stocked_config unjoined_dot)))
   \<and> snd (main_startup cold_boot stocked_config unjoined_dot)
       = [ResetConfig, ResetNetworkSession, SetLogLevel, SetJoinMode, UpdateOtaConfig,
          SetDisableDutyCycle True, SetAdr False, SetTxDataRate, SetWakePin, SaveConfig,
          DisplayConfig]
   \<and> take 2 (snd (loop_pass wake_pin_low
          (fst (main_startup cold_boot stocked_config unjoined_dot))))
       = [JoinNetwork, SetDisableDutyCycle False]"
  by (simp add: example_defs program_defs)

text \<open>
  Claim C5, as the program has it. A cold start leaves the device unjoined with the
  duty-cycle restriction switched off: its one \<open>setDisableDutyCycle\<close> call has the
  argument true, and it makes no join. A transmit pass that finds the device unjoined
  calls \<open>join_network()\<close> and then \<open>setDisableDutyCycle(false)\<close>, which switches the
  restriction on, whatever the outcome of the join. A pass that takes the dispense branch
  or finds the device joined makes neither call and leaves the radio as it was.
\<close>

theorem duty_cycle_off_until_join:
  "(\<not> standby_flag b \<longrightarrow>
      \<not> network_join_status (dot (fst (main_startup b c d)))
      \<and> disable_duty_cycle (dot (fst (main_startup b c d)))
      \<and> duty_cycle_calls (snd (main_startup b c d)) = [True]
      \<and> \<not> joins (snd (main_startup b c d)))
   \<and> (dispense_read i = 0 \<and> \<not> network_join_status (dot s) \<longrightarrow>
      take 2 (snd (loop_pass i s)) = [JoinNetwork, SetDisableDutyCycle False]
      \<and> duty_cycle_calls (snd (loop_pass i s)) = [False]
      \<and> \<not> disable_duty_cycle (dot (fst (loop_pass i s)))
      \<and> network_join_status (dot (fst (loop_pass i s))) = join_ok i)
   \<and> (dispense_read i \<noteq> 0 \<or> network_join_status (dot s) \<longrightarrow>
      duty_cycle_calls (snd (loop_pass i s)) = []
      \<and> \<not> joins (snd (loop_pass i s))
      \<and> dot (fst (loop_pass i s)) = dot s)"
proof (intro conjI impI)
  assume cold: "\<not> standby_flag b"
  then show "\<not> network_join_status (dot (fst (main_startup b c d)))"
    and "disable_duty_cycle (dot (fst (main_startup b c d)))"
    and "duty_cycle_calls (snd (main_startup b c d)) = [True]"
    and "\<not> joins (snd (main_startup b c d))"
    by (simp_all add: main_startup_def Let_def joins_def)
next
  assume u: "dispense_read i = 0 \<and> \<not> network_join_status (dot s)"
  then show "take 2 (snd (loop_pass i s)) = [JoinNetwork, SetDisableDutyCycle False]"
    by (simp add: loop_pass_low first_calls_transmit_cycle)
  from u show "duty_cycle_calls (snd (loop_pass i s)) = [False]"
    by (simp add: loop_pass_low duty_cycle_calls_transmit_cycle)
  from u show "\<not> disable_duty_cycle (dot (fst (loop_pass i s)))"
    and "network_join_status (dot (fst (loop_pass i s))) = join_ok i"
    by (simp_all add: dot_loop_pass_unjoined)
next
  assume j: "dispense_read i \<noteq> 0 \<or> network_join_status (dot s)"
  then show "dot (fst (loop_pass i s)) = dot s"
    by (rule dot_loop_pass_unchanged)
  from j show "duty_cycle_calls (snd (loop_pass i s)) = []"
    by (cases "dispense_read i = 0")
      (simp_all add: loop_pass_low loop_pass_high duty_cycle_calls_transmit_cycle
        snd_dispense_wake)
  show "\<not> joins (snd (loop_pass i s))"
  proof (cases "dispense_read i = 0")
    case True
    with j show ?thesis by (simp add: loop_pass_low joins_transmit_cycle)
  next
    case False
    then show ?thesis by (simp add: loop_pass_high snd_dispense_wake joins_def)
  qed
qed

theorem duty_cycle_off_until_join_witness:
  "\<not> standby_flag cold_boot
   \<and> disable_duty_cycle (dot (fst (main_startup cold_boot stocked_config unjoined_dot)))
   \<and> duty_cycle_calls (snd (main_startup cold_boot stocked_config unjoined_dot)) = [True]
   \<and> dispense_read wake_pin_low = 0
   \<and> \<not> network_join_status (dot (fst (main_startup cold_boot stocked_config unjoined_dot)))
   \<and> duty_cycle_calls
        (snd (loop_pass wake_pin_low (fst (main_startup cold_boot stocked_config unjoined_dot))))
       = [False]
   \<and> \<not> disable_duty_cycle
        (dot (fst (loop_pass wake_pin_low
          (fst (main_startup cold_boot stocked_config unjoined_dot)))))
   \<and> network_join_status (dot asleep_state)
   \<and> duty_cycle_calls (snd (loop_pass wake_pin_low asleep_state)) = []
   \<and> dot (fst (loop_pass wake_pin_low asleep_state)) = dot asleep_state"
  using duty_cycle_off_until_join
      [where b = cold_boot and c = stocked_config and d = unjoined_dot
        and i = wake_pin_low
        and s = "fst (main_startup cold_boot stocked_config unjoined_dot)"]
    duty_cycle_off_until_join
      [where b = cold_boot and c = stocked_config and d = unjoined_dot
        and i = wake_pin_low and s = asleep_state]
  by (simp add: example_defs program_defs)

subsection \<open>Battery bytes\<close>

text \<open>
  Claim C6. In a transmit pass whose battery pin reads low (both reads of the pass return
  0) the payload is the two count bytes followed by 0x01 and the stored battery state is
  set, whatever it was; a second such pass sends the 0x01 byte again. In a transmit pass
  whose pin reads healthy (both reads return 1) while the stored state is low, the
  payload is the two count bytes followed by one 0x00 byte and the stored state is
  cleared; a healthy pass that follows a healthy pass sends the two count bytes alone.
\<close>

theorem battery_alert_bytes:
  assumes "dispense_read i = 0" and "dispense_read j = 0"
  shows "(battery_reads i 0 \<longrightarrow>
            sent_payloads (snd (loop_pass i s))
              = [count_bytes (get_dispenses_left (config s)) @ [0x01]]
            \<and> get_battery_status (config (fst (loop_pass i s))))
       \<and> (battery_reads i 0 \<and> battery_reads j 0 \<longrightarrow>
            sent_payloads (snd (loop_pass j (fst (loop_pass i s))))
              = [count_bytes (get_dispenses_left (config s)) @ [0x01]])
       \<and> (battery_reads i 1 \<and> get_battery_status (config s) \<longrightarrow>
            sent_payloads (snd (loop_pass i s))
              = [count_bytes (get_dispenses_left (config s)) @ [0x00]]
            \<and> \<not> get_battery_status (config (fst (loop_pass i s))))
       \<and> (battery_reads i 1 \<and> battery_reads j 1 \<longrightarrow>
            sent_payloads (snd (loop_pass j (fst (loop_pass i s))))
              = [count_bytes (get_dispenses_left (config s))])"
proof (intro conjI impI)
  assume "battery_reads i 0"
  with assms(1) show "sent_payloads (snd (loop_pass i s))
              = [count_bytes (get_dispenses_left (config s)) @ [0x01]]"
    by (rule battery_transmit_low)
next
  assume "battery_reads i 0"
  with assms(1) show "get_battery_status (config (fst (loop_pass i s)))"
    by (rule battery_transmit_low)
next
  assume "battery_reads i 0 \<and> battery_reads j 0"
  then show "sent_payloads (snd (loop_pass j (fst (loop_pass i s))))
              = [count_bytes (get_dispenses_left (config s)) @ [0x01]]"
    using assms by (simp add: battery_transmit_low dispenses_transmit)
next
  assume "battery_reads i 1 \<and> get_battery_status (config s)"
  then show "sent_payloads (snd (loop_pass i s))
              = [count_bytes (get_dispenses_left (config s)) @ [0x00]]"
    using assms(1) by (simp add: battery_transmit_healthy)
next
  assume "battery_reads i 1 \<and> get_battery_status (config s)"
  then show "\<not> get_battery_status (config (fst (loop_pass i s)))"
    using assms(1) by (simp add: battery_transmit_healthy)
next
  assume "battery_reads i 1 \<and> battery_reads j 1"
  then show "sent_payloads (snd (loop_pass j (fst (loop_pass i s))))
              = [count_bytes (get_dispenses_left (config s))]"
    using assms by (simp add: battery_transmit_healthy dispenses_transmit)
qed

theorem battery_alert_bytes_witness:
  "dispense_read wake_battery_low = 0 \<and> dispense_read wake_pin_low = 0
   \<and> battery_reads wake_battery_low 0 \<and> battery_reads wake_pin_low 1
   \<and> sent_payloads (snd (loop_pass wake_battery_low asleep_state)) = [[0x03, 0xE8, 0x01]]
   \<and> get_battery_status (config (fst (loop_pass wake_battery_low asleep_state)))
   \<and> sent_payloads
        (snd (loop_pass wake_battery_low (fst (loop_pass wake_battery_low asleep_state))))
       = [[0x03, 0xE8, 0x01]]
   \<and> get_battery_status (config (low_battery asleep_state))
   \<and> sent_payloads (snd (loop_pass wake_pin_low (low_battery asleep_state)))
       = [[0x03, 0xE8, 0x00]]
   \<and> \<not> get_battery_status (config (fst (loop_pass wake_pin_low (low_battery asleep_state))))
   \<and> sent_payloads
        (snd (loop_pass wake_pin_low (fst (loop_pass wake_pin_low (low_battery asleep_state)))))
       = [[0x03, 0xE8]]"
  using battery_alert_bytes
      [where i = wake_battery_low and j = wake_battery_low and s = asleep_state]
    battery_alert_bytes
      [where i = wake_pin_low and j = wake_pin_low and s = "low_battery asleep_state"]
  by (simp add: battery_reads_def example_defs program_defs)

subsection \<open>The payload\<close>

text \<open>
  Claim C7 is not met by a transmit pass in which the battery pin falls between the read
  of line 171 and the read of line 177. The two tests are written as alternatives on one
  pin (\<open>== 1\<close> with the stored state low, \<open>== 0\<close>), but each reads the pin anew: with
  the stored battery state low, a first read of 1 and a second read of 0, both tests
  succeed, both status bytes are pushed, and the payload sent has four bytes.
\<close>

theorem payload_of_four_bytes:
  "sent_payloads (snd (loop_pass wake_battery_falling (low_battery asleep_state)))
     = [[0x03, 0xE8, 0x00, 0x01]]"
  by (simp add: wake_battery_falling_def example_defs program_defs)

text \<open>
  The bytes of a pass in general. A pass that takes the dispense branch sends nothing. A
  transmit pass sends one payload: the two count bytes, which encode the low 16 bits of
  the count big-endian, then 0x00 if the first battery read is 1 and the stored battery
  state is low, then 0x01 if the second battery read is 0. The fourth byte can occur only
  when the two battery reads differ: when they agree the payload has 2 or 3 bytes.
\<close>

lemma payload_bytes_of_pass:
  "(dispense_read i \<noteq> 0 \<longrightarrow> sent_payloads (snd (loop_pass i s)) = [])
   \<and> (dispense_read i = 0 \<longrightarrow>
        sent_payloads (snd (loop_pass i s))
          = [count_bytes (get_dispenses_left (config s))
             @ (if lowBat_read1 i = 1 \<and> get_battery_status (config s) then [0x00] else [])
             @ (if lowBat_read2 i = 0 then [0x01] else [])])
   \<and> map unat (count_bytes (get_dispenses_left (config s)))
        = [unat (get_dispenses_left (config s)) div 256 mod 256,
           unat (get_dispenses_left (config s)) mod 256]
   \<and> (\<forall>p \<in> set (sent_payloads (snd (loop_pass i s))).
        2 \<le> length p \<and> length p \<le> 4
        \<and> (lowBat_read1 i = lowBat_read2 i \<longrightarrow> length p \<le> 3))"
proof (intro conjI impI)
  assume "dispense_read i \<noteq> 0"
  then show "sent_payloads (snd (loop_pass i s)) = []"
    by (simp add: loop_pass_high snd_dispense_wake)
next
  assume "dispense_read i = 0"
  then show "sent_payloads (snd (loop_pass i s))
          = [count_bytes (get_dispenses_left (config s))
             @ (if lowBat_read1 i = 1 \<and> get_battery_status (config s) then [0x00] else [])
             @ (if lowBat_read2 i = 0 then [0x01] else [])]"
    by (simp add: loop_pass_low payload_transmit_cycle report_stable_def report_low_def)
next
  show "map unat (count_bytes (get_dispenses_left (config s)))
        = [unat (get_dispenses_left (config s)) div 256 mod 256,
           unat (get_dispenses_left (config s)) mod 256]"
    by (rule count_bytes_big_endian)
next
  show "\<forall>p \<in> set (sent_payloads (snd (loop_pass i s))).
        2 \<le> length p \<and> length p \<le> 4
        \<and> (lowBat_read1 i = lowBat_read2 i \<longrightarrow> length p \<le> 3)"
  proof (cases "dispense_read i = 0")
    case True
    then show ?thesis
      by (simp add: loop_pass_low payload_transmit_cycle report_stable_def report_low_def
          length_count_bytes)
  next
    case False
    then show ?thesis by (simp add: loop_pass_high snd_dispense_wake)
  qed
qed

subsection \<open>Clearing the latches\<close>

text \<open>
  Claim C8 fails as stated for the low-battery latch. After the low-battery edge, a
  transmit pass that reports the low battery (payload ending in 0x01), a dispense wake and
  a further transmit pass, the latch is still set: no statement of the loop writes it.
\<close>

theorem low_battery_latch_stays_set:
  "sent_payloads
     (snd (run [LowBatteryEdge, Pass wake_battery_low, Pass wake_pin_high, Pass wake_pin_low]
        (asleep_state, [])))
     = [[0x03, 0xE8, 0x01], [0x03, 0xE7, 0x00]]
   \<and> low_battery_interrupt
       (fst (run [LowBatteryEdge, Pass wake_battery_low, Pass wake_pin_high, Pass wake_pin_low]
          (asleep_state, [])))"
  by (simp add: example_defs program_defs)

text \<open>
  Claim C8, as the program has it. Every pass leaves the dispense latch clear. A pass
  clears the reset latch exactly when its dispense pin read is low, and leaves it as it
  was otherwise. No pass changes the low-battery latch, and once the low-battery handler
  has run the latch is set in every state of every execution that follows.
\<close>

theorem latches_after_pass:
  "\<not> counter_interrupt (fst (loop_pass i s))
   \<and> reset_interrupt (fst (loop_pass i s)) = (reset_interrupt s \<and> dispense_read i \<noteq> 0)
   \<and> low_battery_interrupt (fst (loop_pass i s)) = low_battery_interrupt s
   \<and> low_battery_interrupt (fst (run evs (low_battery s, as)))"
proof (intro conjI)
  show "low_battery_interrupt (fst (run evs (low_battery s, as)))"
    by (rule low_battery_interrupt_run) (simp add: low_battery_def)
qed (simp_all add: counter_interrupt_loop_pass reset_interrupt_loop_pass
      low_battery_interrupt_loop_pass)

end
